theory Spec2Isabelle
  imports Complex_Main
begin

section \<open>The survey page script: navigation and history synchronisation\<close>

text \<open>
  A shallow embedding of \<^verbatim>\<open>src/public/script.js\<close>. The script's top-level variables, the
  session storage and what the script has done to the browser are the fields of one record that
  every function takes and returns. A JavaScript exception is the left injection of a sum.
  Page numbers are the integers among the script's numbers, which are IEEE 754 doubles:
  where the script adds or subtracts one, the model rounds the result as a double is rounded.
\<close>

subsection \<open>Configuration constants\<close>

text \<open>
  Lines 40 to 42. The source marks the three constants as values to be specified per survey,
  so the functions take them as a parameter; \<open>sourceConfig\<close> holds the values written in the
  file.
\<close>

record config =
  totalPages :: int
  chatbotPage :: int
  textareaReplacement :: bool

definition sourceConfig :: config where
  "sourceConfig = \<lparr>totalPages = 1, chatbotPage = 1, textareaReplacement = False\<rparr>"

subsection \<open>Data\<close>

text \<open>The object \<^verbatim>\<open>{ page: page }\<close> kept in \<^verbatim>\<open>historyStates\<close> and in the native history.\<close>

datatype stateObj = StateObj (page: int)

text \<open>
  Exceptions the modelled functions can raise: reading a property of \<^verbatim>\<open>undefined\<close> or
  \<^verbatim>\<open>null\<close>, and \<^verbatim>\<open>JSON.parse\<close> on text that is not JSON.
\<close>

datatype exn = TypeError | SyntaxError

text \<open>
  Session storage holds strings. An item is described by what \<^verbatim>\<open>getItem\<close> returns and what
  the script's reader makes of it: \<open>Missing\<close> is \<^verbatim>\<open>null\<close>, \<open>Empty\<close> is the empty string (both
  falsy, so the guards of \<^verbatim>\<open>restoreState\<close> skip them), \<open>Holds v\<close> is a non-empty string.
  For the page item \<open>v\<close> is the integer \<^verbatim>\<open>parseInt\<close> reads (text on which it yields
  \<^verbatim>\<open>NaN\<close> is outside this model). For a JSON item \<open>v\<close> says what \<^verbatim>\<open>JSON.parse\<close> does
  with the text: \<open>Malformed\<close> when it throws, \<open>Encodes x\<close> when it returns \<open>x\<close>.
  JSON text for a value of another shape than the variable's is outside this model as well.
  \<^verbatim>\<open>setItem\<close> with a number or with \<^verbatim>\<open>JSON.stringify\<close> of an array or object writes a
  non-empty string that reads back as the value written.
\<close>

datatype 'a json_text = Malformed | Encodes 'a

datatype 'a item = Missing | Empty | Holds 'a

record storage =
  item_currentPage :: "int item"
  item_historyStates :: "stateObj list json_text item"
  item_scrollPositions :: "(int \<rightharpoonup> real) json_text item"
  item_dialogueFinished :: "string option"

definition emptyStorage :: storage where
  "emptyStorage = \<lparr>item_currentPage = Missing, item_historyStates = Missing,
     item_scrollPositions = Missing, item_dialogueFinished = None\<rparr>"

text \<open>
  What the script observes of the browser during one call: the viewport offset
  \<^verbatim>\<open>window.scrollY\<close>, the handle \<^verbatim>\<open>requestAnimationFrame\<close> returns, and which elements the
  document has. The HTML is not part of the source, so element lookups are answered by this
  record: \<open>pageIds\<close> lists the numbers \<open>n\<close> with an element of id \<^verbatim>\<open>page\<close>\<open>n\<close>, \<open>pageCount\<close> is
  the number of elements of class \<^verbatim>\<open>page\<close>.
\<close>

record browser =
  scrollY :: real
  frameHandle :: nat
  pageIds :: "int list"
  pageCount :: nat
  hasChatbotInterface :: bool
  hasSurveyContainer :: bool
  hasInputContainer :: bool
  hasFinishedDialogueContainer :: bool

text \<open>Calls the script makes on the browser, in the order made.\<close>

datatype call =
    ReplaceState stateObj
  | PushState stateObj
  | HistoryBack
  | CancelAnimationFrame nat
  | RequestAnimationFrame
  | ScrollToTop
  | SetTimeout nat
  | DispatchEvent string

text \<open>The argument of the \<^verbatim>\<open>popstate\<close> listener; \<^verbatim>\<open>event.state\<close> may be \<^verbatim>\<open>null\<close>.\<close>

datatype popStateEvent = PopStateEvent (state: "stateObj option")

text \<open>
  The script's variables (lines 44 to 55, and the implicit global \<^verbatim>\<open>scrollPos\<close> of line 152),
  followed by the parts of the browser the script writes. \<open>None\<close> is \<^verbatim>\<open>undefined\<close> or
  \<^verbatim>\<open>null\<close>. \<open>consentCheckbox\<close> is \<open>Some b\<close> when the variable refers to a checkbox whose
  \<^verbatim>\<open>checked\<close> is \<open>b\<close>. \<open>pages\<close> is \<open>Some k\<close> when it holds a list of \<open>k\<close> nodes. The three view
  fields are \<open>None\<close> as long as the script has not set the classes they stand for.
\<close>

record session =
  pages :: "nat option"
  consentCheckbox :: "bool option"
  currentPage :: int
  historyStates :: "stateObj list"
  scrollPositions :: "int \<rightharpoonup> real"
  scrollFrame1Id :: "nat option"
  scrollFrame2Id :: "nat option"
  bypassPopState :: bool
  dialogueFinished :: bool
  scrollPos :: "real option"
  sessionStorage :: storage
  popstateListener :: bool
  beforeunloadListener :: bool
  activePage :: "int option"
  chatbotVisible :: "bool option"
  finishedDialogueShown :: "bool option"
  calls :: "call list"

text \<open>The state when the script has been loaded: lines 44 to 55 on a given session storage.\<close>

definition initialState :: "storage \<Rightarrow> session" where
  "initialState st =
     \<lparr>pages = None, consentCheckbox = None, currentPage = 1, historyStates = [],
      scrollPositions = Map.empty, scrollFrame1Id = None, scrollFrame2Id = None,
      bypassPopState = False,
      dialogueFinished = (item_dialogueFinished st = Some ''true''),
      scrollPos = None, sessionStorage = st, popstateListener = False,
      beforeunloadListener = False, activePage = None, chatbotVisible = None,
      finishedDialogueShown = None, calls = []\<rparr>"

subsection \<open>Numbers\<close>

text \<open>
  A double has a significand of 53 binary digits. \<open>spacing a\<close> is the distance between
  neighbouring doubles at the magnitude \<open>a\<close>: 1 below \<open>2^53 = 9007199254740992\<close>, and twice
  as much with every further binary digit of \<open>a\<close>. \<open>toDouble\<close> takes an integer to the nearest
  double, a tie going to the even significand; this is how \<^verbatim>\<open>+\<close> and \<^verbatim>\<open>-\<close> round their exact
  result. \<open>increment\<close> is \<^verbatim>\<open>x + 1\<close> and \<open>decrement\<close> is \<^verbatim>\<open>x - 1\<close> of the script, for a double
  \<open>x\<close> that is an integer; neither leaves the range of the finite doubles.
\<close>

fun spacing :: "nat \<Rightarrow> nat" where
  "spacing a = (if a < 9007199254740992 then 1 else 2 * spacing (a div 2))"

declare spacing.simps [simp del]

definition toDouble :: "int \<Rightarrow> int" where
  "toDouble n =
     (let a = nat \<bar>n\<bar>; u = spacing a; q = a div u; r = a mod u;
          m = (if 2 * r < u then q else if u < 2 * r then q + 1
               else if even q then q else q + 1)
      in sgn n * int (m * u))"

definition increment :: "int \<Rightarrow> int" where
  "increment n = toDouble (n + 1)"

definition decrement :: "int \<Rightarrow> int" where
  "decrement n = toDouble (n - 1)"

subsection \<open>Page display\<close>

text \<open>Lines 100 to 103: only \<^verbatim>\<open>pages\<close> is assigned.\<close>

definition referenceElements :: "browser \<Rightarrow> session \<Rightarrow> session" where
  "referenceElements env s = s\<lparr>pages := Some (pageCount env)\<rparr>"

text \<open>Lines 177 to 186.\<close>

definition cancelScrollDelays :: "session \<Rightarrow> session" where
  "cancelScrollDelays s =
     (let s1 = (case scrollFrame1Id s of
                  Some h \<Rightarrow> s\<lparr>calls := calls s @ [CancelAnimationFrame h], scrollFrame1Id := None\<rparr>
                | None \<Rightarrow> s)
      in (case scrollFrame2Id s1 of
            Some h \<Rightarrow> s1\<lparr>calls := calls s1 @ [CancelAnimationFrame h], scrollFrame2Id := None\<rparr>
          | None \<Rightarrow> s1))"

text \<open>
  Lines 204 to 238. Both branches touch \<^verbatim>\<open>pageContainers[chatbotPage - 1]\<close>, which is
  \<^verbatim>\<open>undefined\<close> unless the index is at least 0 and below the number of page elements. The
  work queued with \<^verbatim>\<open>setTimeout\<close> runs later and is recorded as a call only.
\<close>

definition applyChatbotViewState :: "config \<Rightarrow> browser \<Rightarrow> session \<Rightarrow> exn + session" where
  "applyChatbotViewState cfg env s =
     (if \<not> hasChatbotInterface env \<or> \<not> hasSurveyContainer env then Inr s
      else if currentPage s = chatbotPage cfg then
        (if 0 \<le> decrement (chatbotPage cfg) \<and> decrement (chatbotPage cfg) < int (pageCount env)
         then Inr (s\<lparr>chatbotVisible := Some True,
                     calls := calls s @ [SetTimeout 100, DispatchEvent ''chatbotInterfaceOpened'']\<rparr>)
         else Inl TypeError)
      else
        (if 0 \<le> decrement (chatbotPage cfg) \<and> decrement (chatbotPage cfg) < int (pageCount env)
         then Inr (s\<lparr>chatbotVisible := Some False\<rparr>)
         else Inl TypeError))"

text \<open>
  Lines 140 to 167. The scroll to a saved offset happens in later animation frames; the model
  keeps the handle of the first frame and the call. \<^verbatim>\<open>console.log\<close> is left out.
\<close>

definition showPage :: "config \<Rightarrow> browser \<Rightarrow> int \<Rightarrow> session \<Rightarrow> exn + session" where
  "showPage cfg env pageNumber s =
     (let s1 = cancelScrollDelays s in
      case pages s1 of
        None \<Rightarrow> Inl TypeError
      | Some k \<Rightarrow>
          if pageNumber \<notin> set (pageIds env) then Inl TypeError
          else
            (let s2 = s1\<lparr>activePage := Some pageNumber\<rparr> in
             case (if decrement (chatbotPage cfg) \<le> pageNumber \<and>
                      pageNumber \<le> increment (chatbotPage cfg)
                   then applyChatbotViewState cfg env s2 else Inr s2) of
               Inl e \<Rightarrow> Inl e
             | Inr s3 \<Rightarrow>
                 if pageNumber \<noteq> chatbotPage cfg then
                   (let s4 = s3\<lparr>scrollPos := scrollPositions s3 pageNumber\<rparr> in
                    case scrollPos s4 of
                      Some y \<Rightarrow> Inr (s4\<lparr>scrollFrame1Id := Some (frameHandle env),
                                         calls := calls s4 @ [RequestAnimationFrame]\<rparr>)
                    | None \<Rightarrow> Inr (s4\<lparr>calls := calls s4 @ [ScrollToTop]\<rparr>))
                 else Inr s3))"

subsection \<open>State management\<close>

text \<open>Lines 319 to 322.\<close>

definition saveNavigationState :: "session \<Rightarrow> session" where
  "saveNavigationState s =
     s\<lparr>sessionStorage := (sessionStorage s)
         \<lparr>item_currentPage := Holds (currentPage s),
          item_historyStates := Holds (Encodes (historyStates s))\<rparr>\<rparr>"

text \<open>Lines 335 to 341. The guard reads \<^verbatim>\<open>currentPage\<close>, not the argument.\<close>

definition saveScrollPositions :: "config \<Rightarrow> browser \<Rightarrow> int \<Rightarrow> session \<Rightarrow> session" where
  "saveScrollPositions cfg env pageNumber s =
     (if \<not> (currentPage s = chatbotPage cfg) then
        (let s1 = s\<lparr>scrollPositions := (scrollPositions s)(pageNumber \<mapsto> scrollY env)\<rparr>
         in s1\<lparr>sessionStorage := (sessionStorage s1)
                 \<lparr>item_scrollPositions := Holds (Encodes (scrollPositions s1))\<rparr>\<rparr>)
      else s)"

text \<open>Lines 356 to 372. Every branch uses both elements, so a missing one throws.\<close>

definition setFinishedDialogueState :: "config \<Rightarrow> browser \<Rightarrow> session \<Rightarrow> exn + session" where
  "setFinishedDialogueState cfg env s =
     (if \<not> hasFinishedDialogueContainer env \<or> \<not> hasInputContainer env then Inl TypeError
      else if \<not> textareaReplacement cfg then Inr (s\<lparr>finishedDialogueShown := Some False\<rparr>)
      else if \<not> dialogueFinished s then Inr (s\<lparr>finishedDialogueShown := Some False\<rparr>)
      else Inr (s\<lparr>finishedDialogueShown := Some True\<rparr>))"

text \<open>Lines 252 to 256.\<close>

definition handleFinishedDialogue :: "config \<Rightarrow> browser \<Rightarrow> session \<Rightarrow> exn + session" where
  "handleFinishedDialogue cfg env s =
     (let s1 = s\<lparr>dialogueFinished := True\<rparr>;
          s2 = s1\<lparr>sessionStorage := (sessionStorage s1)\<lparr>item_dialogueFinished := Some ''true''\<rparr>\<rparr>
      in setFinishedDialogueState cfg env s2)"

text \<open>Lines 387 to 404. \<^verbatim>\<open>JSON.parse\<close> is called outside any \<^verbatim>\<open>try\<close>.\<close>

definition restoreState :: "config \<Rightarrow> browser \<Rightarrow> session \<Rightarrow> exn + session" where
  "restoreState cfg env s =
     (let s1 = (case item_currentPage (sessionStorage s) of
                  Holds n \<Rightarrow> s\<lparr>currentPage := n\<rparr>
                | _ \<Rightarrow> s)
      in case (case item_historyStates (sessionStorage s1) of
                 Holds Malformed \<Rightarrow> Inl SyntaxError
               | Holds (Encodes h) \<Rightarrow> Inr (s1\<lparr>historyStates := h\<rparr>)
               | _ \<Rightarrow> Inr s1) of
           Inl e \<Rightarrow> Inl e
         | Inr s2 \<Rightarrow>
             (case (case item_scrollPositions (sessionStorage s2) of
                      Holds Malformed \<Rightarrow> Inl SyntaxError
                    | Holds (Encodes m) \<Rightarrow> Inr (s2\<lparr>scrollPositions := m\<rparr>)
                    | _ \<Rightarrow> Inr s2) of
                Inl e \<Rightarrow> Inl e
              | Inr s3 \<Rightarrow> setFinishedDialogueState cfg env s3))"

subsection \<open>Navigation and history management\<close>

text \<open>Lines 425 to 430. The test compares the entries with \<^verbatim>\<open>currentPage\<close>.\<close>

definition initializeHistory :: "int \<Rightarrow> session \<Rightarrow> session" where
  "initializeHistory p s =
     (let stateObj = StateObj p;
          s1 = (if \<not> list_ex (\<lambda>obj. page obj = currentPage s) (historyStates s)
                then s\<lparr>historyStates := historyStates s @ [stateObj]\<rparr> else s);
          s2 = s1\<lparr>calls := calls s1 @ [ReplaceState stateObj]\<rparr>
      in saveNavigationState s2)"

text \<open>Lines 443 to 448.\<close>

definition pushPageToHistory :: "int \<Rightarrow> session \<Rightarrow> session" where
  "pushPageToHistory p s =
     (let stateObj = StateObj p;
          s1 = s\<lparr>historyStates := historyStates s @ [stateObj]\<rparr>;
          s2 = s1\<lparr>calls := calls s1 @ [PushState stateObj]\<rparr>
      in saveNavigationState s2)"

text \<open>
  Lines 472 to 506. In the gate condition \<^verbatim>\<open>event.state.page\<close> is read only when
  \<^verbatim>\<open>currentPage === 1\<close> holds, as \<^verbatim>\<open>&&\<close> evaluates from the left. \<^verbatim>\<open>currentPage--\<close> and
  \<^verbatim>\<open>currentPage++\<close> are subtraction and addition of doubles.
\<close>

definition handlePopState :: "config \<Rightarrow> browser \<Rightarrow> popStateEvent \<Rightarrow> session \<Rightarrow> exn + session" where
  "handlePopState cfg env event s =
     (if bypassPopState s then Inr (s\<lparr>bypassPopState := False\<rparr>)
      else
        case consentCheckbox s of
          None \<Rightarrow> Inl TypeError
        | Some consentIsChecked \<Rightarrow>
            (case (if currentPage s = 1
                   then (case state event of
                           None \<Rightarrow> Inl TypeError
                         | Some obj \<Rightarrow> Inr (page obj = 2 \<and> \<not> consentIsChecked))
                   else Inr False) of
               Inl e \<Rightarrow> Inl e
             | Inr True \<Rightarrow>
                 Inr (s\<lparr>bypassPopState := True, calls := calls s @ [HistoryBack]\<rparr>)
             | Inr False \<Rightarrow>
                 if currentPage s = totalPages cfg then
                   Inr (s\<lparr>popstateListener := False, calls := calls s @ [HistoryBack]\<rparr>)
                 else
                   (case state event of
                      None \<Rightarrow> Inl TypeError
                    | Some obj \<Rightarrow>
                        (let s2 = (if page obj < currentPage s
                                   then (let s1 = saveScrollPositions cfg env (currentPage s) s
                                         in s1\<lparr>currentPage := decrement (currentPage s1)\<rparr>)
                                   else (let s1 = saveScrollPositions cfg env (currentPage s) s
                                         in s1\<lparr>currentPage := increment (currentPage s1)\<rparr>))
                         in case showPage cfg env (currentPage s2) s2 of
                              Inl e \<Rightarrow> Inl e
                            | Inr s3 \<Rightarrow> Inr (saveNavigationState s3)))))"

subsection \<open>Initialisation and event delivery\<close>

text \<open>Lines 114 to 121, and the listener registered for \<^verbatim>\<open>beforeunload\<close>.\<close>

definition attachEventListeners :: "session \<Rightarrow> session" where
  "attachEventListeners s = s\<lparr>beforeunloadListener := True, popstateListener := True\<rparr>"

definition beforeunload :: "config \<Rightarrow> browser \<Rightarrow> session \<Rightarrow> session" where
  "beforeunload cfg env s = saveScrollPositions cfg env (currentPage s) s"

text \<open>
  Lines 82 to 93, once \<^verbatim>\<open>getMetadata\<close> has completed: it writes the participant items of the
  storage only, which no function of this model reads.
\<close>

definition initializePage :: "config \<Rightarrow> browser \<Rightarrow> session \<Rightarrow> exn + session" where
  "initializePage cfg env s =
     (let s1 = referenceElements env s in
      case restoreState cfg env s1 of
        Inl e \<Rightarrow> Inl e
      | Inr s2 \<Rightarrow>
          (let s3 = initializeHistory (currentPage s2) s2 in
           case showPage cfg env (currentPage s3) s3 of
             Inl e \<Rightarrow> Inl e
           | Inr s4 \<Rightarrow>
               (let s5 = attachEventListeners s4
                in Inr (s5\<lparr>calls := calls s5 @ [DispatchEvent ''surveyDataInitialized'']\<rparr>))))"

text \<open>The browser calls the \<^verbatim>\<open>popstate\<close> listener only while it is registered.\<close>

definition dispatchPopState :: "config \<Rightarrow> browser \<Rightarrow> popStateEvent \<Rightarrow> session \<Rightarrow> exn + session" where
  "dispatchPopState cfg env event s =
     (if popstateListener s then handlePopState cfg env event s else Inr s)"

text \<open>
  Events are handled one after another, each to completion; every event comes with what
  the browser shows the script at that moment. An exception ends the run.
\<close>

fun dispatchPopStates :: "config \<Rightarrow> (browser \<times> popStateEvent) list \<Rightarrow> session \<Rightarrow> exn + session" where
  "dispatchPopStates cfg [] s = Inr s"
| "dispatchPopStates cfg (ev # evs) s =
     (case dispatchPopState cfg (fst ev) (snd ev) s of
        Inl e \<Rightarrow> Inl e
      | Inr s' \<Rightarrow> dispatchPopStates cfg evs s')"

text \<open>A sequence of calls of \<^verbatim>\<open>pushPageToHistory\<close>, one per page of the list.\<close>

fun pushPages :: "int list \<Rightarrow> session \<Rightarrow> session" where
  "pushPages [] s = s"
| "pushPages (p # ps) s = pushPages ps (pushPageToHistory p s)"

subsection \<open>Vocabulary of the properties\<close>

text \<open>The pages held in \<^verbatim>\<open>historyStates\<close>, in order.\<close>

definition visitedPages :: "session \<Rightarrow> int list" where
  "visitedPages s = map page (historyStates s)"

text \<open>Every page of the list is absent from \<^verbatim>\<open>historyStates\<close> at the time of its call.\<close>

fun firstVisits :: "int list \<Rightarrow> session \<Rightarrow> bool" where
  "firstVisits [] s = True"
| "firstVisits (p # ps) s =
     (p \<notin> set (visitedPages s) \<and> firstVisits ps (pushPageToHistory p s))"





text \<open>The condition of the consent gate, line 482, for an event whose state is \<open>obj\<close>.\<close>

definition consentGate :: "session \<Rightarrow> stateObj \<Rightarrow> bool \<Rightarrow> bool" where
  "consentGate s obj consentIsChecked =
     (currentPage s = 1 \<and> page obj = 2 \<and> \<not> consentIsChecked)"

text \<open>
  Neither the scroll map in memory nor the one in the session storage has an entry for the
  chatbot page.
\<close>

definition noChatbotScroll :: "config \<Rightarrow> session \<Rightarrow> bool" where
  "noChatbotScroll cfg s =
     (scrollPositions s (chatbotPage cfg) = None \<and>
      (case item_scrollPositions (sessionStorage s) of
         Holds (Encodes m) \<Rightarrow> m (chatbotPage cfg) = None
       | _ \<Rightarrow> True))"

subsection \<open>Concrete surveys\<close>

text \<open>A document with four pages and every container the script looks up.\<close>

definition surveyBrowser :: browser where
  "surveyBrowser =
     \<lparr>scrollY = 120, frameHandle = 7, pageIds = [1, 2, 3, 4], pageCount = 4,
      hasChatbotInterface = True, hasSurveyContainer = True, hasInputContainer = True,
      hasFinishedDialogueContainer = True\<rparr>"

text \<open>
  The configuration of the scenario of the specification (three pages, chatbot on page 2),
  and the same survey with a fourth page.
\<close>

definition scenarioConfig :: config where
  "scenarioConfig = \<lparr>totalPages = 3, chatbotPage = 2, textareaReplacement = False\<rparr>"

definition longerConfig :: config where
  "longerConfig = \<lparr>totalPages = 4, chatbotPage = 2, textareaReplacement = False\<rparr>"

text \<open>
  The session of the scenario before the first press of the back button: consent given,
  pages 1, 2 and 3 visited in this order, page 3 on screen. The consent box is taken as
  referenced and checked, as the scenario supposes. The record of calls starts empty here,
  so that it shows the calls of the run alone.
\<close>

definition scenarioSession :: session where
  "scenarioSession =
     \<lparr>pages = Some 4, consentCheckbox = Some True, currentPage = 3,
      historyStates = [StateObj 1, StateObj 2, StateObj 3],
      scrollPositions = Map.empty, scrollFrame1Id = None, scrollFrame2Id = None,
      bypassPopState = False, dialogueFinished = False, scrollPos = None,
      sessionStorage =
        \<lparr>item_currentPage = Holds 3,
         item_historyStates = Holds (Encodes [StateObj 1, StateObj 2, StateObj 3]),
         item_scrollPositions = Missing, item_dialogueFinished = None\<rparr>,
      popstateListener = True, beforeunloadListener = True, activePage = Some 3,
      chatbotVisible = Some False, finishedDialogueShown = Some False,
      calls = []\<rparr>"

text \<open>The two presses of the back button: the entries reached carry pages 2 and 1.\<close>

definition backTo :: "int \<Rightarrow> browser \<times> popStateEvent" where
  "backTo p = (surveyBrowser, PopStateEvent (Some (StateObj p)))"


text \<open>A session on page 1 with the consent box referenced and not checked.\<close>

definition firstPageSession :: session where
  "firstPageSession =
     (initialState emptyStorage)
       \<lparr>pages := Some 4, consentCheckbox := Some False, popstateListener := True,
        activePage := Some 1\<rparr>"

section \<open>Properties\<close>

subsection \<open>What the display and the two savers leave alone\<close>

lemma showPage_frame:
  assumes "showPage cfg env p s = Inr s'"
  shows "currentPage s' = currentPage s" "historyStates s' = historyStates s"
    "scrollPositions s' = scrollPositions s" "sessionStorage s' = sessionStorage s"
    "bypassPopState s' = bypassPopState s" "consentCheckbox s' = consentCheckbox s"
    "popstateListener s' = popstateListener s" "activePage s' = Some p"
  using assms
  by (auto simp: showPage_def cancelScrollDelays_def applyChatbotViewState_def Let_def
      split: option.splits if_splits sum.splits)








lemma detached_ignores_events:
  "\<not> popstateListener s \<Longrightarrow> dispatchPopStates cfg evs s = Inr s"
  by (induction evs) (simp_all add: dispatchPopState_def)

subsection \<open>Numbers\<close>

lemma toDouble_exact: "\<bar>n\<bar> < 9007199254740992 \<Longrightarrow> toDouble n = n"
proof -
  assume "\<bar>n\<bar> < 9007199254740992"
  then have "spacing (nat \<bar>n\<bar>) = 1"
    by (subst spacing.simps) simp
  then show ?thesis
    by (simp add: toDouble_def Let_def mult_sgn_abs)
qed

lemma toDouble_bound:
  "toDouble 9007199254740992 = 9007199254740992"
  "toDouble (- 9007199254740992) = - 9007199254740992"
  by (simp_all add: toDouble_def Let_def spacing.simps[of 9007199254740992]
      spacing.simps[of 4503599627370496])

text \<open>Below \<open>2^53\<close> in magnitude the script's \<^verbatim>\<open>+ 1\<close> and \<^verbatim>\<open>- 1\<close> are exact.\<close>

lemma increment_exact:
  assumes "\<bar>n\<bar> < 9007199254740992"
  shows "increment n = n + 1"
proof (cases "n + 1 = 9007199254740992")
  case True
  then have "n = 9007199254740991" by simp
  then show ?thesis by (simp add: increment_def toDouble_bound)
next
  case False
  with assms have "\<bar>n + 1\<bar> < 9007199254740992" by linarith
  then show ?thesis by (simp add: increment_def toDouble_exact)
qed

lemma decrement_exact:
  assumes "\<bar>n\<bar> < 9007199254740992"
  shows "decrement n = n - 1"
proof (cases "n - 1 = - 9007199254740992")
  case True
  then have "n = - 9007199254740991" by simp
  then show ?thesis by (simp add: decrement_def toDouble_bound)
next
  case False
  with assms have "\<bar>n - 1\<bar> < 9007199254740992" by linarith
  then show ?thesis by (simp add: decrement_def toDouble_exact)
qed

text \<open>At \<open>2^53\<close> the sum \<open>2^53 + 1\<close> is no double and rounds back: the increment is lost.\<close>

lemma increment_at_limit: "increment 9007199254740992 = 9007199254740992"
  by (simp add: increment_def toDouble_def Let_def spacing.simps[of 9007199254740993]
      spacing.simps[of 4503599627370496])

lemma decrement_at_limit: "decrement (- 9007199254740992) = - 9007199254740992"
  by (simp add: decrement_def toDouble_def Let_def spacing.simps[of 9007199254740993]
      spacing.simps[of 4503599627370496])

subsection \<open>The branches of the handler\<close>



lemma handlePopState_terminal:
  assumes "\<not> bypassPopState s" and "currentPage s = totalPages cfg"
    and "consentCheckbox s = Some c"
    and "currentPage s = 1 \<longrightarrow> (\<exists>obj. state e = Some obj \<and> \<not> consentGate s obj c)"
  shows "handlePopState cfg env e s =
           Inr (s\<lparr>popstateListener := False, calls := calls s @ [HistoryBack]\<rparr>)"
  using assms by (auto simp: handlePopState_def consentGate_def)


subsection \<open>First visits\<close>

lemma pushPages_historyStates:
  "historyStates (pushPages ps s) = historyStates s @ map StateObj ps"
  by (induction ps arbitrary: s) (simp_all add: pushPageToHistory_def saveNavigationState_def Let_def)

lemma pushPages_calls:
  "calls (pushPages ps s) = calls s @ map (\<lambda>p. PushState (StateObj p)) ps"
  by (induction ps arbitrary: s) (simp_all add: pushPageToHistory_def saveNavigationState_def Let_def)

lemma visitedPages_push:
  "visitedPages (pushPageToHistory p s) = visitedPages s @ [p]"
  by (simp add: visitedPages_def pushPageToHistory_def saveNavigationState_def Let_def)

lemma firstVisits_distinct:
  "firstVisits ps s \<Longrightarrow> distinct (visitedPages s) \<Longrightarrow> distinct (visitedPages (pushPages ps s))"
  by (induction ps arbitrary: s) (simp_all add: visitedPages_push)

text \<open>
  C3. One call of \<^verbatim>\<open>pushPageToHistory\<close> makes \<^verbatim>\<open>historyStates\<close> longer by one and makes one
  \<^verbatim>\<open>pushState\<close> call. For a sequence of calls, each for a page that \<^verbatim>\<open>historyStates\<close> does not
  hold at the time of the call, the length grows by the number of calls, there is one
  \<^verbatim>\<open>pushState\<close> per call in the order of the calls, and a history without a repeated page
  is without a repeated page afterwards; starting from the empty history of a new session
  every page occurs at most once.
\<close>

theorem single_append:
  assumes "firstVisits ps s"
  shows "length (historyStates (pushPageToHistory p s)) = length (historyStates s) + 1 \<and>
         calls (pushPageToHistory p s) = calls s @ [PushState (StateObj p)] \<and>
         length (historyStates (pushPages ps s)) = length (historyStates s) + length ps \<and>
         calls (pushPages ps s) = calls s @ map (\<lambda>p. PushState (StateObj p)) ps \<and>
         (distinct (visitedPages s) \<longrightarrow> distinct (visitedPages (pushPages ps s))) \<and>
         (historyStates s = [] \<longrightarrow> distinct (visitedPages (pushPages ps s)))"
proof -
  have one: "length (historyStates (pushPageToHistory p s)) = length (historyStates s) + 1"
    "calls (pushPageToHistory p s) = calls s @ [PushState (StateObj p)]"
    by (simp_all add: pushPageToHistory_def saveNavigationState_def Let_def)
  have many: "length (historyStates (pushPages ps s)) = length (historyStates s) + length ps"
    by (simp add: pushPages_historyStates)
  have fresh: "historyStates s = [] \<Longrightarrow> distinct (visitedPages s)"
    by (simp add: visitedPages_def)
  from one many pushPages_calls firstVisits_distinct[OF assms] fresh show ?thesis by auto
qed

theorem single_append_witness:
  "firstVisits [2, 3] (initializeHistory 1 (initialState emptyStorage)) \<and>
   distinct (visitedPages (initializeHistory 1 (initialState emptyStorage))) \<and>
   length (historyStates (pushPages [2, 3] (initializeHistory 1 (initialState emptyStorage)))) = 3 \<and>
   calls (pushPages [2, 3] (initializeHistory 1 (initialState emptyStorage))) =
     [ReplaceState (StateObj 1), PushState (StateObj 2), PushState (StateObj 3)] \<and>
   distinct (visitedPages (pushPages [2, 3] (initializeHistory 1 (initialState emptyStorage))))"
  using single_append [of "[2, 3]" "initializeHistory 1 (initialState emptyStorage)" 2]
  by (simp add: visitedPages_def initializeHistory_def pushPageToHistory_def saveNavigationState_def
      initialState_def Let_def)

subsection \<open>The entry of a page load\<close>





subsection \<open>Restoring the saved state\<close>


lemma restoreState_frame:
  assumes "restoreState cfg env s = Inr s'"
  shows "consentCheckbox s' = consentCheckbox s" "bypassPopState s' = bypassPopState s"
    "pages s' = pages s" "calls s' = calls s" "sessionStorage s' = sessionStorage s"
  using assms
  by (auto simp: restoreState_def setFinishedDialogueState_def Let_def
      split: item.splits json_text.splits if_splits)

text \<open>
  C7, amended. On a document with the two dialogue containers, and with no stored JSON text
  on which \<^verbatim>\<open>JSON.parse\<close> throws, \<^verbatim>\<open>restoreState\<close> completes on a newly loaded script. Every
  variable whose item is missing or the empty string then has its default: page 1, the empty
  history, the empty scroll map; the dialogue counts as unfinished unless its item is the
  text \<^verbatim>\<open>true\<close>.
\<close>

theorem restoreState_defaults:
  assumes "hasInputContainer env" and "hasFinishedDialogueContainer env"
    and "item_historyStates st \<noteq> Holds Malformed"
    and "item_scrollPositions st \<noteq> Holds Malformed"
  shows "\<exists>s'. restoreState cfg env (initialState st) = Inr s' \<and>
           (item_currentPage st = Missing \<or> item_currentPage st = Empty \<longrightarrow> currentPage s' = 1) \<and>
           (item_historyStates st = Missing \<or> item_historyStates st = Empty \<longrightarrow> historyStates s' = []) \<and>
           (item_scrollPositions st = Missing \<or> item_scrollPositions st = Empty \<longrightarrow>
              scrollPositions s' = Map.empty) \<and>
           (item_dialogueFinished st \<noteq> Some ''true'' \<longrightarrow> \<not> dialogueFinished s')"
  using assms
  by (cases "item_currentPage st"; cases "item_historyStates st"; cases "item_scrollPositions st")
     (auto simp: restoreState_def setFinishedDialogueState_def initialState_def Let_def
       split: json_text.splits)

theorem restoreState_defaults_witness:
  "hasInputContainer surveyBrowser \<and> hasFinishedDialogueContainer surveyBrowser \<and>
   item_historyStates emptyStorage \<noteq> Holds Malformed \<and>
   item_scrollPositions emptyStorage \<noteq> Holds Malformed \<and>
   restoreState scenarioConfig surveyBrowser (initialState emptyStorage) =
     Inr ((initialState emptyStorage)\<lparr>finishedDialogueShown := Some False\<rparr>) \<and>
   currentPage (initialState emptyStorage) = 1 \<and> historyStates (initialState emptyStorage) = [] \<and>
   \<not> dialogueFinished (initialState emptyStorage)"
  using restoreState_defaults [of surveyBrowser emptyStorage scenarioConfig]
  by (auto simp: restoreState_def setFinishedDialogueState_def initialState_def emptyStorage_def
       surveyBrowser_def scenarioConfig_def Let_def)

text \<open>
  A history item or a scroll item that is not JSON makes \<^verbatim>\<open>restoreState\<close> throw: no default
  is put in its place.
\<close>

theorem restoreState_malformed_counterexample:
  "restoreState sourceConfig surveyBrowser
     (initialState (emptyStorage\<lparr>item_historyStates := Holds Malformed\<rparr>)) = Inl SyntaxError \<and>
   restoreState sourceConfig surveyBrowser
     (initialState (emptyStorage\<lparr>item_scrollPositions := Holds Malformed\<rparr>)) = Inl SyntaxError"
  by (simp add: restoreState_def initialState_def emptyStorage_def Let_def)

subsection \<open>Page load\<close>

lemma initializeHistory_frame:
  "currentPage (initializeHistory p s) = currentPage s"
  "scrollPositions (initializeHistory p s) = scrollPositions s"
  "consentCheckbox (initializeHistory p s) = consentCheckbox s"
  "bypassPopState (initializeHistory p s) = bypassPopState s"
  "pages (initializeHistory p s) = pages s"
  by (simp_all add: initializeHistory_def saveNavigationState_def Let_def)




lemma initializePage_steps:
  assumes "initializePage cfg env s0 = Inr s"
  obtains s2 s4 where "restoreState cfg env (referenceElements env s0) = Inr s2"
    and "showPage cfg env (currentPage s2) (initializeHistory (currentPage s2) s2) = Inr s4"
    and "s = (attachEventListeners s4)\<lparr>calls := calls s4 @ [DispatchEvent ''surveyDataInitialized'']\<rparr>"
  using assms
  by (auto simp: initializePage_def Let_def initializeHistory_frame attachEventListeners_def
      split: sum.splits)



subsection \<open>The handler after a page load\<close>

text \<open>
  No function called by \<^verbatim>\<open>initializePage\<close> assigns \<^verbatim>\<open>consentCheckbox\<close>, so after any page load
  that succeeds the variable is \<^verbatim>\<open>undefined\<close>, no bypass is pending and the handler is
  registered: the first event makes it throw at line 481.
\<close>

lemma initializePage_leaves_checkbox:
  assumes "initializePage cfg env (initialState st) = Inr s"
  shows "consentCheckbox s = None \<and> \<not> bypassPopState s \<and> popstateListener s"
proof -
  from assms obtain s2 s4
    where r: "restoreState cfg env (referenceElements env (initialState st)) = Inr s2"
      and d: "showPage cfg env (currentPage s2) (initializeHistory (currentPage s2) s2) = Inr s4"
      and s: "s = (attachEventListeners s4)\<lparr>calls := calls s4 @ [DispatchEvent ''surveyDataInitialized'']\<rparr>"
    by (rule initializePage_steps)
  have "consentCheckbox s2 = None" "\<not> bypassPopState s2"
    using restoreState_frame(1,2)[OF r] by (simp_all add: referenceElements_def initialState_def)
  then have "consentCheckbox s4 = None" "\<not> bypassPopState s4"
    using showPage_frame(5,6)[OF d] by (simp_all add: initializeHistory_frame)
  with s show ?thesis by (simp add: attachEventListeners_def)
qed

lemma first_event_throws:
  assumes "initializePage cfg env (initialState st) = Inr s"
  shows "dispatchPopState cfg env' e s = Inl TypeError"
  using initializePage_leaves_checkbox[OF assms]
  by (simp add: dispatchPopState_def handlePopState_def)

text \<open>
  C6. The handler is expected to run to completion for every event of normal operation.
  It does not: on the source's constants, a new session and a document with every element
  the script looks up, the page load succeeds and shows page 1, and the handler throws a
  \<^verbatim>\<open>TypeError\<close> for the first \<^verbatim>\<open>popstate\<close> event.
\<close>

theorem popstate_after_load_throws:
  "(case initializePage sourceConfig surveyBrowser (initialState emptyStorage) of
      Inl e \<Rightarrow> False
    | Inr s \<Rightarrow> popstateListener s \<and> activePage s = Some 1 \<and>
        dispatchPopState sourceConfig surveyBrowser (PopStateEvent (Some (StateObj 1))) s =
          Inl TypeError)"
  by (simp add: initializePage_def referenceElements_def restoreState_def setFinishedDialogueState_def
      initializeHistory_def saveNavigationState_def showPage_def cancelScrollDelays_def
      applyChatbotViewState_def attachEventListeners_def dispatchPopState_def handlePopState_def
      initialState_def emptyStorage_def sourceConfig_def surveyBrowser_def increment_exact
      decrement_exact Let_def)

subsection \<open>The bypass flag\<close>



subsection \<open>The consent gate\<close>

text \<open>
  C2. An event whose state carries page 2, received on page 1 while the consent box is not
  checked, comes to the consent gate when no bypass is pending (the handler tests the bypass
  flag first, and the flag is set only by this gate, for the event of its own back
  navigation). The gate sets the bypass flag and asks for one back navigation; nothing else
  changes, so the current page is still 1 and the page on screen is the one shown before.
\<close>

theorem consent_gate_sends_back:
  assumes "\<not> bypassPopState s" and "currentPage s = 1" and "consentCheckbox s = Some False"
    and "state e = Some obj" and "page obj = 2"
  shows "handlePopState cfg env e s =
           Inr (s\<lparr>bypassPopState := True, calls := calls s @ [HistoryBack]\<rparr>)"
  using assms by (simp add: handlePopState_def)

theorem consent_gate_sends_back_witness:
  "\<not> bypassPopState firstPageSession \<and> currentPage firstPageSession = 1 \<and>
   consentCheckbox firstPageSession = Some False \<and>
   handlePopState longerConfig surveyBrowser (PopStateEvent (Some (StateObj 2))) firstPageSession =
     Inr (firstPageSession\<lparr>bypassPopState := True, calls := [HistoryBack]\<rparr>)"
  using consent_gate_sends_back [of firstPageSession "PopStateEvent (Some (StateObj 2))" "StateObj 2"
      longerConfig surveyBrowser]
  by (simp add: firstPageSession_def initialState_def)

subsection \<open>The terminal gate\<close>

text \<open>
  C1, amended. An event arrives on the last page and comes to the terminal gate: no bypass
  is pending, the consent box is referenced, and the consent gate, tested before, does not
  apply. Only a survey whose last page is page 1 reads the event for that test: there the
  event carries a state, and it is not page 2 without consent. Then the handler removes
  itself and asks for one back navigation. Nothing else changes: the current page,
  \<^verbatim>\<open>historyStates\<close> and the page on screen are as before. No later event of this page load
  reaches the handler. The removal does not outlast the page load: every page load that
  succeeds, a reload in the same session included, registers the handler again.
\<close>

theorem terminal_gate_detaches:
  assumes "\<not> bypassPopState s" and "currentPage s = totalPages cfg"
    and "consentCheckbox s = Some c"
    and "currentPage s = 1 \<longrightarrow> (\<exists>obj. state e = Some obj \<and> \<not> consentGate s obj c)"
  shows "handlePopState cfg env e s =
           Inr (s\<lparr>popstateListener := False, calls := calls s @ [HistoryBack]\<rparr>) \<and>
         dispatchPopStates cfg evs (s\<lparr>popstateListener := False, calls := calls s @ [HistoryBack]\<rparr>) =
           Inr (s\<lparr>popstateListener := False, calls := calls s @ [HistoryBack]\<rparr>) \<and>
         (\<forall>st env' s'. initializePage cfg env' (initialState st) = Inr s' \<longrightarrow> popstateListener s')"
proof -
  have "handlePopState cfg env e s =
          Inr (s\<lparr>popstateListener := False, calls := calls s @ [HistoryBack]\<rparr>)"
    using assms by (rule handlePopState_terminal)
  moreover have "dispatchPopStates cfg evs
      (s\<lparr>popstateListener := False, calls := calls s @ [HistoryBack]\<rparr>) =
        Inr (s\<lparr>popstateListener := False, calls := calls s @ [HistoryBack]\<rparr>)"
    by (rule detached_ignores_events) simp
  moreover have "\<forall>st env' s'. initializePage cfg env' (initialState st) = Inr s' \<longrightarrow>
      popstateListener s'"
    using initializePage_leaves_checkbox by blast
  ultimately show ?thesis by blast
qed

theorem terminal_gate_detaches_witness:
  "\<not> bypassPopState scenarioSession \<and> currentPage scenarioSession = totalPages scenarioConfig \<and>
   consentCheckbox scenarioSession = Some True \<and> currentPage scenarioSession \<noteq> 1 \<and>
   handlePopState scenarioConfig surveyBrowser (snd (backTo 2)) scenarioSession =
     Inr (scenarioSession\<lparr>popstateListener := False, calls := [HistoryBack]\<rparr>) \<and>
   dispatchPopStates scenarioConfig [backTo 1, backTo 2]
       (scenarioSession\<lparr>popstateListener := False, calls := [HistoryBack]\<rparr>) =
     Inr (scenarioSession\<lparr>popstateListener := False, calls := [HistoryBack]\<rparr>)"
  using terminal_gate_detaches [of scenarioSession scenarioConfig True "snd (backTo 2)" surveyBrowser
      "[backTo 1, backTo 2]"]
  by (simp add: scenarioSession_def scenarioConfig_def)

text \<open>
  The handler does run again in the same session. On the last page of the scenario survey
  the back button makes the handler remove itself. A reload then finds page 3 in the session
  storage, shows it and registers the handler anew, and the next event is handed to it.
\<close>

theorem terminal_gate_reload_counterexample:
  "currentPage scenarioSession = totalPages scenarioConfig \<and>
   handlePopState scenarioConfig surveyBrowser (snd (backTo 2)) scenarioSession =
     Inr (scenarioSession\<lparr>popstateListener := False, calls := [HistoryBack]\<rparr>) \<and>
   (case initializePage scenarioConfig surveyBrowser
           (initialState (sessionStorage
              (scenarioSession\<lparr>popstateListener := False, calls := [HistoryBack]\<rparr>))) of
      Inl x \<Rightarrow> False
    | Inr r \<Rightarrow> popstateListener r \<and> currentPage r = totalPages scenarioConfig \<and>
        activePage r = Some 3 \<and>
        dispatchPopState scenarioConfig surveyBrowser (snd (backTo 2)) r =
          handlePopState scenarioConfig surveyBrowser (snd (backTo 2)) r)"
  by (simp add: handlePopState_def dispatchPopState_def backTo_def initializePage_def
      referenceElements_def restoreState_def setFinishedDialogueState_def initializeHistory_def
      saveNavigationState_def showPage_def cancelScrollDelays_def applyChatbotViewState_def
      attachEventListeners_def initialState_def scenarioSession_def scenarioConfig_def
      surveyBrowser_def increment_exact decrement_exact Let_def)

subsection \<open>The default branch\<close>




subsection \<open>Scroll capture\<close>

lemma saveScrollPositions_keeps_noChatbotScroll:
  "noChatbotScroll cfg s \<Longrightarrow> noChatbotScroll cfg (saveScrollPositions cfg env (currentPage s) s)"
  by (simp add: noChatbotScroll_def saveScrollPositions_def Let_def)

lemma showPage_keeps_noChatbotScroll:
  "showPage cfg env p s = Inr s' \<Longrightarrow> noChatbotScroll cfg s \<Longrightarrow> noChatbotScroll cfg s'"
  by (simp add: noChatbotScroll_def showPage_frame)

lemma handlePopState_keeps_noChatbotScroll:
  assumes "handlePopState cfg env e s = Inr s'" and "noChatbotScroll cfg s"
  shows "noChatbotScroll cfg s'"
proof (cases "bypassPopState s")
  case True
  with assms show ?thesis by (auto simp: handlePopState_def noChatbotScroll_def)
next
  case False
  with assms(1) obtain c where c: "consentCheckbox s = Some c"
    by (cases "consentCheckbox s") (simp_all add: handlePopState_def)
  have nav: "noChatbotScroll cfg (saveNavigationState t) = noChatbotScroll cfg t" for t
    by (simp add: noChatbotScroll_def saveNavigationState_def)
  have upd: "noChatbotScroll cfg (t\<lparr>currentPage := q\<rparr>) = noChatbotScroll cfg t" for t q
    by (simp add: noChatbotScroll_def)
  have upd2: "noChatbotScroll cfg (t\<lparr>bypassPopState := b, calls := cs\<rparr>) = noChatbotScroll cfg t"
    "noChatbotScroll cfg (t\<lparr>popstateListener := b, calls := cs\<rparr>) = noChatbotScroll cfg t" for t b cs
    by (simp_all add: noChatbotScroll_def)
  note keep = saveScrollPositions_keeps_noChatbotScroll[OF assms(2), of env]
  show ?thesis
    using assms False c keep
    by (auto simp: handlePopState_def Let_def nav upd upd2
        split: option.splits if_splits sum.splits bool.splits
        dest: showPage_keeps_noChatbotScroll)
qed

lemma restoreState_keeps_noChatbotScroll:
  assumes "restoreState cfg env s = Inr s'" and "noChatbotScroll cfg s"
  shows "noChatbotScroll cfg s'"
  using assms
  by (auto simp: restoreState_def setFinishedDialogueState_def noChatbotScroll_def Let_def
      split: item.splits json_text.splits if_splits)

lemma initializeHistory_keeps_noChatbotScroll:
  "noChatbotScroll cfg (initializeHistory p s) = noChatbotScroll cfg s"
  by (simp add: noChatbotScroll_def initializeHistory_def saveNavigationState_def Let_def)

lemma initializePage_keeps_noChatbotScroll:
  assumes "initializePage cfg env s = Inr s'" and "noChatbotScroll cfg s"
  shows "noChatbotScroll cfg s'"
proof -
  from assms(1) obtain s2 s4
    where r: "restoreState cfg env (referenceElements env s) = Inr s2"
      and d: "showPage cfg env (currentPage s2) (initializeHistory (currentPage s2) s2) = Inr s4"
      and s': "s' = (attachEventListeners s4)\<lparr>calls := calls s4 @ [DispatchEvent ''surveyDataInitialized'']\<rparr>"
    by (rule initializePage_steps)
  have "noChatbotScroll cfg (referenceElements env s)"
    using assms(2) by (simp add: noChatbotScroll_def referenceElements_def)
  then have "noChatbotScroll cfg s2"
    by (rule restoreState_keeps_noChatbotScroll[OF r])
  then have "noChatbotScroll cfg s4"
    using showPage_keeps_noChatbotScroll[OF d] by (simp add: initializeHistory_keeps_noChatbotScroll)
  then show ?thesis
    by (simp add: s' noChatbotScroll_def attachEventListeners_def)
qed

text \<open>
  C10, amended. Unless the current page is the chatbot page, \<^verbatim>\<open>saveScrollPositions\<close> records
  the viewport offset under its argument and writes the scroll map to the session storage;
  when the current page is the chatbot page it changes nothing. The guard is on the current
  page, not on the argument. Called for the current page, as the script's two callers do
  (the \<^verbatim>\<open>beforeunload\<close> listener and the \<^verbatim>\<open>popstate\<close> handler), it never adds an entry for the
  chatbot page, in memory or in the storage; a page load, which reads the map back from the
  storage, keeps it that way.
\<close>

theorem saveScrollPositions_effect:
  "(currentPage s \<noteq> chatbotPage cfg \<longrightarrow>
      scrollPositions (saveScrollPositions cfg env p s) = (scrollPositions s)(p \<mapsto> scrollY env) \<and>
      item_scrollPositions (sessionStorage (saveScrollPositions cfg env p s)) =
        Holds (Encodes ((scrollPositions s)(p \<mapsto> scrollY env)))) \<and>
   (currentPage s = chatbotPage cfg \<longrightarrow> saveScrollPositions cfg env p s = s) \<and>
   (noChatbotScroll cfg s \<longrightarrow>
      noChatbotScroll cfg (saveScrollPositions cfg env (currentPage s) s) \<and>
      noChatbotScroll cfg (beforeunload cfg env s) \<and>
      (\<forall>s'. handlePopState cfg env e s = Inr s' \<longrightarrow> noChatbotScroll cfg s') \<and>
      (\<forall>s'. initializePage cfg env s = Inr s' \<longrightarrow> noChatbotScroll cfg s'))"
  using saveScrollPositions_keeps_noChatbotScroll[of cfg s env]
    handlePopState_keeps_noChatbotScroll[of cfg env e s]
    initializePage_keeps_noChatbotScroll[of cfg env s]
  by (auto simp: saveScrollPositions_def beforeunload_def Let_def)

text \<open>
  On page 3 of the scenario survey a call for page 2, the chatbot page, writes an entry for
  the chatbot page.
\<close>

theorem saveScrollPositions_guard_counterexample:
  "currentPage scenarioSession \<noteq> chatbotPage scenarioConfig \<and>
   scrollPositions scenarioSession (chatbotPage scenarioConfig) = None \<and>
   scrollPositions (saveScrollPositions scenarioConfig surveyBrowser (chatbotPage scenarioConfig)
      scenarioSession) (chatbotPage scenarioConfig) = Some 120"
  by (simp add: saveScrollPositions_def scenarioSession_def scenarioConfig_def surveyBrowser_def Let_def)

theorem saveScrollPositions_effect_witness:
  "currentPage scenarioSession \<noteq> chatbotPage scenarioConfig \<and>
   noChatbotScroll scenarioConfig scenarioSession \<and>
   scrollPositions (saveScrollPositions scenarioConfig surveyBrowser 3 scenarioSession) =
     [3 \<mapsto> 120] \<and>
   noChatbotScroll scenarioConfig (saveScrollPositions scenarioConfig surveyBrowser 3 scenarioSession) \<and>
   saveScrollPositions scenarioConfig surveyBrowser 2 (scenarioSession\<lparr>currentPage := 2\<rparr>) =
     scenarioSession\<lparr>currentPage := 2\<rparr>"
  using saveScrollPositions_effect [of scenarioSession scenarioConfig surveyBrowser 3 "snd (backTo 2)"]
    saveScrollPositions_effect [of "scenarioSession\<lparr>currentPage := 2\<rparr>" scenarioConfig surveyBrowser 2
      "snd (backTo 2)"]
  by (simp add: noChatbotScroll_def scenarioSession_def scenarioConfig_def surveyBrowser_def)

end
